theory Spec2Isabelle
  imports Complex_Main "HOL-Library.Word"
begin

unbundle bit_operations_syntax

section \<open>JavaScript values\<close>

text \<open>
  A JavaScript string is a sequence of 16-bit code units, so \<open>String.fromCharCode\<close>
  (which reduces its argument modulo \<open>2 ^ 16\<close>) is \<open>word_of_int\<close>. Source literals are
  ASCII and are written through \<open>js\<close>. Numbers are modelled as \<open>int\<close>: every number the
  modelled functions handle is an integer far below \<open>2 ^ 53\<close>, where doubles are exact.
\<close>

type_synonym jsstring = "16 word list"

definition js :: "string \<Rightarrow> jsstring" where
  "js s = map of_char s"

datatype jsval =
    Undefined
  | Null
  | Bool bool
  | Num int
  | Str jsstring
  | Arr "jsval list"
  | Obj "(string \<times> jsval) list"

text \<open>Property lookup on an object literal: the value of the first field of that name.\<close>

fun field :: "string \<Rightarrow> jsval \<Rightarrow> jsval option" where
  "field k (Obj kvs) = map_of kvs k"
| "field k v = None"

text \<open>A board coordinate object \<open>{x, y}\<close>.\<close>

datatype pos = Pos (pos_x: int) (pos_y: int)

section \<open>The interface state (client/js/state.js)\<close>

record ship =
  ship_id :: jsstring
  ship_name :: jsstring
  ship_type :: jsstring
  ship_length :: int
  placed :: bool
  ship_orientation :: jsstring

text \<open>
  An entry of \<open>placement.placedShips\<close>: the spread copy \<open>{...ship, positions, orientation}\<close>.
\<close>

record placedShip = ship +
  positions :: "pos list"

record placement_state =
  selectedShip :: jsval
  orientation :: jsstring
  placedShips :: "placedShip list"
  ships :: "ship list"

record logEntry =
  log_message :: jsval
  log_type :: jsval
  log_timestamp :: int

record game_state =
  currentTurn :: jsstring
  moveCount :: int
  yourShipsRemaining :: int
  enemyShipsRemaining :: int
  defenseBoard :: "jsval list list"
  attackBoard :: "jsval list list"
  combatLog :: "logEntry list"

text \<open>A \<open>Date\<close> is its time value in milliseconds; \<open>null\<close> is \<open>None\<close>.\<close>

record timer_state =
  startTime :: "int option"
  endTime :: "int option"

record GameState =
  currentScreen :: jsstring
  playerName :: jsstring
  playerId :: jsval
  matchId :: jsval
  boardSize :: int
  placement :: placement_state
  game :: game_state
  gameTimer :: timer_state

definition SCREEN_START :: jsstring where
  "SCREEN_START = js ''start''"

definition fleet :: "ship list" where
  "fleet =
     [\<lparr>ship_id = js ''carrier'', ship_name = js ''Portaaviones'', ship_type = js ''AIRCRAFT_CARRIER'',
       ship_length = 5, placed = False, ship_orientation = js ''horizontal''\<rparr>,
      \<lparr>ship_id = js ''battleship'', ship_name = js ''Acorazado'', ship_type = js ''BATTLESHIP'',
       ship_length = 4, placed = False, ship_orientation = js ''horizontal''\<rparr>,
      \<lparr>ship_id = js ''cruiser'', ship_name = js ''Crucero'', ship_type = js ''CRUISER'',
       ship_length = 3, placed = False, ship_orientation = js ''horizontal''\<rparr>,
      \<lparr>ship_id = js ''destroyer'', ship_name = js ''Destructor'', ship_type = js ''DESTROYER'',
       ship_length = 3, placed = False, ship_orientation = js ''horizontal''\<rparr>,
      \<lparr>ship_id = js ''submarine'', ship_name = js ''Submarino'', ship_type = js ''SUBMARINE'',
       ship_length = 2, placed = False, ship_orientation = js ''horizontal''\<rparr>]"

definition newGame :: game_state where
  "newGame = \<lparr>currentTurn = [], moveCount = 0, yourShipsRemaining = 5, enemyShipsRemaining = 5,
     defenseBoard = [], attackBoard = [], combatLog = []\<rparr>"

definition newTimer :: timer_state where
  "newTimer = \<lparr>startTime = None, endTime = None\<rparr>"

text \<open>The object literal \<open>GameState\<close> as the module is loaded.\<close>

definition GameState_literal :: GameState where
  "GameState_literal =
     \<lparr>currentScreen = js ''start'', playerName = [], playerId = Null, matchId = Null,
      boardSize = 10,
      placement = \<lparr>selectedShip = Null, orientation = js ''horizontal'', placedShips = [],
                   ships = fleet\<rparr>,
      game = newGame, gameTimer = newTimer\<rparr>"

subsection \<open>Methods\<close>

definition resetPlacement :: "GameState \<Rightarrow> GameState" where
  "resetPlacement s =
     s\<lparr>placement := (placement s)\<lparr>selectedShip := Null, orientation := js ''horizontal'',
          placedShips := [], ships := map (\<lambda>sh. sh\<lparr>placed := False\<rparr>) (ships (placement s))\<rparr>\<rparr>"

definition init :: "GameState \<Rightarrow> GameState" where
  "init s =
     (resetPlacement (s\<lparr>currentScreen := SCREEN_START, playerName := [], playerId := Null,
                        matchId := Null\<rparr>))
       \<lparr>game := newGame, gameTimer := newTimer\<rparr>"

text \<open>
  \<open>switchScreen\<close>: the DOM is outside the model; \<open>targetExists\<close> says whether
  \<open>document.getElementById\<close> found the screen's element.
\<close>

definition switchScreen :: "jsstring \<Rightarrow> bool \<Rightarrow> GameState \<Rightarrow> GameState" where
  "switchScreen screenName targetExists s =
     (if targetExists then s\<lparr>currentScreen := screenName\<rparr> else s)"

text \<open>The code units \<open>String.prototype.trim\<close> strips: WhiteSpace and LineTerminator.\<close>

definition isWhiteSpace :: "16 word \<Rightarrow> bool" where
  "isWhiteSpace c \<longleftrightarrow>
     c \<in> {0x9, 0xA, 0xB, 0xC, 0xD, 0x20, 0xA0, 0x1680, 0x2028, 0x2029, 0x202F, 0x205F,
          0x3000, 0xFEFF} \<or> (0x2000 \<le> c \<and> c \<le> 0x200A)"

definition trim :: "jsstring \<Rightarrow> jsstring" where
  "trim s = rev (dropWhile isWhiteSpace (rev (dropWhile isWhiteSpace s)))"

definition setPlayerName :: "jsstring \<Rightarrow> GameState \<Rightarrow> GameState" where
  "setPlayerName name s = s\<lparr>playerName := trim name\<rparr>"

text \<open>
  \<open>Array(n)\<close> with a number argument makes \<open>n\<close> empty slots when \<open>n\<close> is an integer in
  \<open>0 .. 2 ^ 32 - 1\<close> and throws a RangeError otherwise (\<open>None\<close>).
\<close>

definition Array_n :: "int \<Rightarrow> jsval list option" where
  "Array_n n = (if 0 \<le> n \<and> n < 2 ^ 32 then Some (replicate (nat n) Undefined) else None)"

definition fill :: "jsval \<Rightarrow> jsval list \<Rightarrow> jsval list" where
  "fill v xs = map (\<lambda>_. v) xs"

text \<open>\<open>Array(boardSize).fill(null).map(() => Array(boardSize).fill('empty'))\<close>\<close>

definition emptyBoard :: "int \<Rightarrow> jsval list list option" where
  "emptyBoard n =
     (case Array_n n of
        None \<Rightarrow> None
      | Some outer \<Rightarrow>
          (case Array_n n of
             None \<Rightarrow> None
           | Some inner \<Rightarrow> Some (map (\<lambda>_. fill (Str (js ''empty'')) inner) (fill Null outer))))"

text \<open>A thrown RangeError (\<open>None\<close>) leaves the state as it was.\<close>

definition initDefenseBoard :: "GameState \<Rightarrow> GameState option" where
  "initDefenseBoard s =
     (case emptyBoard (boardSize s) of
        None \<Rightarrow> None
      | Some b \<Rightarrow> Some (s\<lparr>game := (game s)\<lparr>defenseBoard := b\<rparr>\<rparr>))"

definition initAttackBoard :: "GameState \<Rightarrow> GameState option" where
  "initAttackBoard s =
     (case emptyBoard (boardSize s) of
        None \<Rightarrow> None
      | Some b \<Rightarrow> Some (s\<lparr>game := (game s)\<lparr>attackBoard := b\<rparr>\<rparr>))"

definition selectShip :: "jsval \<Rightarrow> GameState \<Rightarrow> GameState" where
  "selectShip shipId s = s\<lparr>placement := (placement s)\<lparr>selectedShip := shipId\<rparr>\<rparr>"

definition rotateShip :: "GameState \<Rightarrow> GameState" where
  "rotateShip s =
     s\<lparr>placement := (placement s)\<lparr>orientation :=
          (if orientation (placement s) = js ''horizontal''
           then js ''vertical'' else js ''horizontal'')\<rparr>\<rparr>"

text \<open>
  \<open>placeShip\<close>: \<open>find\<close> yields the first ship with that id; that object is marked placed
  where it stands in \<open>ships\<close>, and its copy, with \<open>positions\<close> and the current orientation,
  is pushed to \<open>placedShips\<close>.
\<close>

fun markPlaced :: "jsstring \<Rightarrow> ship list \<Rightarrow> ship list" where
  "markPlaced shipId [] = []"
| "markPlaced shipId (sh # shs) =
     (if ship_id sh = shipId then sh\<lparr>placed := True\<rparr> # shs else sh # markPlaced shipId shs)"

definition placeShip :: "jsstring \<Rightarrow> pos list \<Rightarrow> GameState \<Rightarrow> GameState" where
  "placeShip shipId ps s =
     (case find (\<lambda>sh. ship_id sh = shipId) (ships (placement s)) of
        None \<Rightarrow> s
      | Some sh \<Rightarrow>
          s\<lparr>placement := (placement s)
               \<lparr>placedShips := placedShips (placement s) @
                  [\<lparr>ship_id = ship_id sh, ship_name = ship_name sh, ship_type = ship_type sh,
                    ship_length = ship_length sh, placed = True,
                    ship_orientation = orientation (placement s), positions = ps\<rparr>],
                ships := markPlaced shipId (ships (placement s))\<rparr>\<rparr>)"

definition allShipsPlaced :: "GameState \<Rightarrow> bool" where
  "allShipsPlaced s = list_all placed (ships (placement s))"

text \<open>\<open>addCombatLog\<close>: an omitted (undefined) \<open>type\<close> takes the default \<open>'info'\<close>.\<close>

definition addCombatLog :: "jsval \<Rightarrow> jsval \<Rightarrow> int \<Rightarrow> GameState \<Rightarrow> GameState" where
  "addCombatLog message type now s =
     s\<lparr>game := (game s)\<lparr>combatLog := combatLog (game s) @
          [\<lparr>log_message = message,
            log_type = (if type = Undefined then Str (js ''info'') else type),
            log_timestamp = now\<rparr>]\<rparr>\<rparr>"

text \<open>
  \<open>row[x] = state\<close> on an array: an index inside the array replaces the element, an
  index past the end grows the array (the slots between read as \<open>undefined\<close>), and any
  other key becomes a named property, which leaves the elements as they are.
\<close>

definition arraySet :: "jsval list \<Rightarrow> int \<Rightarrow> jsval \<Rightarrow> jsval list" where
  "arraySet row i v =
     (if 0 \<le> i \<and> i < int (length row) then row[nat i := v]
      else if int (length row) \<le> i \<and> i < 2 ^ 32 - 1
        then row @ replicate (nat i - length row) Undefined @ [v]
      else row)"

text \<open>\<open>if (board[y]) board[y][x] = state\<close>: a row is there exactly for an index in range.\<close>

definition updateCell :: "jsval list list \<Rightarrow> int \<Rightarrow> int \<Rightarrow> jsval \<Rightarrow> jsval list list" where
  "updateCell board x y state =
     (if 0 \<le> y \<and> y < int (length board)
      then board[nat y := arraySet (board ! nat y) x state] else board)"

definition updateDefenseCell :: "int \<Rightarrow> int \<Rightarrow> jsval \<Rightarrow> GameState \<Rightarrow> GameState" where
  "updateDefenseCell x y state s =
     s\<lparr>game := (game s)\<lparr>defenseBoard := updateCell (defenseBoard (game s)) x y state\<rparr>\<rparr>"

definition updateAttackCell :: "int \<Rightarrow> int \<Rightarrow> jsval \<Rightarrow> GameState \<Rightarrow> GameState" where
  "updateAttackCell x y state s =
     s\<lparr>game := (game s)\<lparr>attackBoard := updateCell (attackBoard (game s)) x y state\<rparr>\<rparr>"

definition startGameTimer :: "int \<Rightarrow> GameState \<Rightarrow> GameState" where
  "startGameTimer now s = s\<lparr>gameTimer := (gameTimer s)\<lparr>startTime := Some now\<rparr>\<rparr>"

definition stopGameTimer :: "int \<Rightarrow> GameState \<Rightarrow> GameState" where
  "stopGameTimer now s = s\<lparr>gameTimer := (gameTimer s)\<lparr>endTime := Some now\<rparr>\<rparr>"

definition reset :: "GameState \<Rightarrow> GameState" where
  "reset s = init s"

subsection \<open>Everything that writes to the state\<close>

text \<open>
  The state changes through its own methods and through the direct writes of the other
  modules: the join handler stores \<open>message.gameId\<close> and \<open>message.playerId\<close>, and the
  attack handler counts \<open>game.enemyShipsRemaining--\<close> and \<open>game.moveCount++\<close>. A run of
  the interface is a list of such actions, applied to the literal.
\<close>

datatype action =
    Init
  | SwitchScreen jsstring bool
  | SetPlayerName jsstring
  | InitDefenseBoard
  | InitAttackBoard
  | SelectShip jsval
  | RotateShip
  | PlaceShip jsstring "pos list"
  | ResetPlacement
  | AddCombatLog jsval jsval int
  | UpdateDefenseCell int int jsval
  | UpdateAttackCell int int jsval
  | StartGameTimer int
  | StopGameTimer int
  | Reset
  | StoreMatch jsval jsval
  | EnemyShipSunk
  | MoveCounted

fun step :: "action \<Rightarrow> GameState \<Rightarrow> GameState" where
  "step Init s = init s"
| "step (SwitchScreen screenName targetExists) s = switchScreen screenName targetExists s"
| "step (SetPlayerName name) s = setPlayerName name s"
| "step InitDefenseBoard s = (case initDefenseBoard s of None \<Rightarrow> s | Some s' \<Rightarrow> s')"
| "step InitAttackBoard s = (case initAttackBoard s of None \<Rightarrow> s | Some s' \<Rightarrow> s')"
| "step (SelectShip shipId) s = selectShip shipId s"
| "step RotateShip s = rotateShip s"
| "step (PlaceShip shipId ps) s = placeShip shipId ps s"
| "step ResetPlacement s = resetPlacement s"
| "step (AddCombatLog message type now) s = addCombatLog message type now s"
| "step (UpdateDefenseCell x y state) s = updateDefenseCell x y state s"
| "step (UpdateAttackCell x y state) s = updateAttackCell x y state s"
| "step (StartGameTimer now) s = startGameTimer now s"
| "step (StopGameTimer now) s = stopGameTimer now s"
| "step Reset s = reset s"
| "step (StoreMatch gameId pid) s = s\<lparr>matchId := gameId, playerId := pid\<rparr>"
| "step EnemyShipSunk s =
     s\<lparr>game := (game s)\<lparr>enemyShipsRemaining := enemyShipsRemaining (game s) - 1\<rparr>\<rparr>"
| "step MoveCounted s = s\<lparr>game := (game s)\<lparr>moveCount := moveCount (game s) + 1\<rparr>\<rparr>"

definition run :: "action list \<Rightarrow> GameState" where
  "run acts = fold step acts GameState_literal"

section \<open>Ship positions (main.js, both copies)\<close>

text \<open>
  \<open>calculateShipPositions\<close> in the current main module: the \<open>for\<close> loop with its counter
  \<open>i\<close> and the array \<open>positions\<close> it pushes to.
\<close>

function calculateShipPositions_loop ::
  "int \<Rightarrow> int \<Rightarrow> int \<Rightarrow> jsstring \<Rightarrow> int \<Rightarrow> pos list \<Rightarrow> pos list" where
  "calculateShipPositions_loop startX startY len orientation' i acc =
     (if i < len then
        calculateShipPositions_loop startX startY len orientation' (i + 1)
          (if orientation' = js ''horizontal''
           then acc @ [Pos (startX + i) startY]
           else acc @ [Pos startX (startY + i)])
      else acc)"
  by pat_completeness auto
termination
  by (relation "measure (\<lambda>(startX, startY, len, orientation', i, acc). nat (len - i))") auto

declare calculateShipPositions_loop.simps [simp del]

definition calculateShipPositions :: "int \<Rightarrow> int \<Rightarrow> int \<Rightarrow> jsstring \<Rightarrow> pos list" where
  "calculateShipPositions startX startY len orientation' =
     calculateShipPositions_loop startX startY len orientation' 0 []"

text \<open>The copy of \<open>calculateShipPositions\<close> in the earlier main module.\<close>

function calculateShipPositions_old_loop ::
  "int \<Rightarrow> int \<Rightarrow> int \<Rightarrow> jsstring \<Rightarrow> int \<Rightarrow> pos list \<Rightarrow> pos list" where
  "calculateShipPositions_old_loop startX startY len orientation' i acc =
     (if i < len then
        calculateShipPositions_old_loop startX startY len orientation' (i + 1)
          (if orientation' = js ''horizontal''
           then acc @ [Pos (startX + i) startY]
           else acc @ [Pos startX (startY + i)])
      else acc)"
  by pat_completeness auto
termination
  by (relation "measure (\<lambda>(startX, startY, len, orientation', i, acc). nat (len - i))") auto

declare calculateShipPositions_old_loop.simps [simp del]

definition calculateShipPositions_old :: "int \<Rightarrow> int \<Rightarrow> int \<Rightarrow> jsstring \<Rightarrow> pos list" where
  "calculateShipPositions_old startX startY len orientation' =
     calculateShipPositions_old_loop startX startY len orientation' 0 []"

section \<open>Placement validation (api.js)\<close>

text \<open>
  \<open>API.isValidPlacement\<close>. The first loop returns \<open>false\<close> at the first position outside
  the board; the three nested loops return \<open>false\<close> at the first coinciding pair.
\<close>

fun boundsLoop :: "pos list \<Rightarrow> int \<Rightarrow> bool" where
  "boundsLoop [] boardSize' = True"
| "boundsLoop (p # ps) boardSize' =
     (if pos_x p < 0 \<or> pos_x p \<ge> boardSize' \<or> pos_y p < 0 \<or> pos_y p \<ge> boardSize'
      then False else boundsLoop ps boardSize')"

fun newPosLoop :: "pos \<Rightarrow> pos list \<Rightarrow> bool" where
  "newPosLoop existingPos [] = True"
| "newPosLoop existingPos (newPos # ps) =
     (if pos_x existingPos = pos_x newPos \<and> pos_y existingPos = pos_y newPos
      then False else newPosLoop existingPos ps)"

fun existingPosLoop :: "pos list \<Rightarrow> pos list \<Rightarrow> bool" where
  "existingPosLoop [] ps = True"
| "existingPosLoop (existingPos # es) ps =
     (if newPosLoop existingPos ps then existingPosLoop es ps else False)"

fun existingShipLoop :: "placedShip list \<Rightarrow> pos list \<Rightarrow> bool" where
  "existingShipLoop [] ps = True"
| "existingShipLoop (existingShip # ss) ps =
     (if existingPosLoop (positions existingShip) ps then existingShipLoop ss ps else False)"

definition isValidPlacement :: "pos list \<Rightarrow> placedShip list \<Rightarrow> int \<Rightarrow> bool" where
  "isValidPlacement ps existingShips boardSize' =
     (if boundsLoop ps boardSize' then existingShipLoop existingShips ps else False)"

section \<open>Coordinate notation (api.js)\<close>

text \<open>
  The decimal digits of a non-negative integer, and \<open>Number.prototype.toString\<close> on an
  integer (below \<open>10 ^ 21\<close>, where JavaScript switches to exponent notation).
\<close>

fun digits :: "nat \<Rightarrow> jsstring" where
  "digits n = (if n < 10 then [of_nat (48 + n)] else digits (n div 10) @ [of_nat (48 + n mod 10)])"

declare digits.simps [simp del]

definition Number_toString :: "int \<Rightarrow> jsstring" where
  "Number_toString n = (if n < 0 then 0x2D # digits (nat (- n)) else digits (nat n))"

definition String_fromCharCode :: "int \<Rightarrow> jsstring" where
  "String_fromCharCode n = [word_of_int n]"

text \<open>\<open>formatCoordinate\<close>: the template literal concatenates the letter and the number.\<close>

definition formatCoordinate :: "int \<Rightarrow> int \<Rightarrow> jsstring" where
  "formatCoordinate x y =
     (let letter = String_fromCharCode (65 + x);
          number = y + 1
      in letter @ Number_toString number)"

text \<open>
  The regular expression \<open>/^([A-J])(\d+)$/i\<close>: one code unit in \<open>A-J\<close> or \<open>a-j\<close>, then one or
  more decimal digits, then the end of the input. A match yields the two groups.
\<close>

definition isLetterAJ :: "16 word \<Rightarrow> bool" where
  "isLetterAJ c \<longleftrightarrow> (0x41 \<le> c \<and> c \<le> 0x4A) \<or> (0x61 \<le> c \<and> c \<le> 0x6A)"

definition isDigit :: "16 word \<Rightarrow> bool" where
  "isDigit c \<longleftrightarrow> 0x30 \<le> c \<and> c \<le> 0x39"

definition matchCoordinate :: "jsstring \<Rightarrow> (16 word \<times> jsstring) option" where
  "matchCoordinate coord =
     (case coord of
        [] \<Rightarrow> None
      | c # ds \<Rightarrow> if isLetterAJ c \<and> ds \<noteq> [] \<and> list_all isDigit ds then Some (c, ds) else None)"

text \<open>\<open>toUpperCase\<close> on an ASCII code unit, which is all the first group can hold.\<close>

definition toUpperCase :: "16 word \<Rightarrow> 16 word" where
  "toUpperCase c = (if 0x61 \<le> c \<and> c \<le> 0x7A then c - 0x20 else c)"

text \<open>\<open>parseInt\<close> on a string of decimal digits, which is all the second group can hold.\<close>

definition parseInt :: "jsstring \<Rightarrow> int" where
  "parseInt ds = foldl (\<lambda>acc c. 10 * acc + (uint c - 48)) 0 ds"

definition parseCoordinate :: "jsstring \<Rightarrow> pos option" where
  "parseCoordinate coord =
     (case matchCoordinate coord of
        None \<Rightarrow> None
      | Some (c, ds) \<Rightarrow>
          (let x = uint (toUpperCase c) - 65;
               y = parseInt ds - 1
           in Some (Pos x y)))"

section \<open>Random placement (api.js)\<close>

text \<open>
  \<open>Math.random()\<close> yields a number \<open>r\<close> with \<open>0 \<le> r < 1\<close>. The generator is the sequence
  of its future results; a call takes the first and leaves the rest. The product with the
  integer range is taken exactly: rounding it to a double cannot reach the next integer
  bound, so \<open>Math.floor\<close> ranges over the same integers.
\<close>

type_synonym rng = "nat \<Rightarrow> real"

definition Math_random :: "rng \<Rightarrow> real \<times> rng" where
  "Math_random g = (g 0, \<lambda>n. g (Suc n))"

function horizontalLoop :: "int \<Rightarrow> int \<Rightarrow> int \<Rightarrow> int \<Rightarrow> pos list \<Rightarrow> pos list" where
  "horizontalLoop startX startY len i acc =
     (if i < len then horizontalLoop startX startY len (i + 1) (acc @ [Pos (startX + i) startY])
      else acc)"
  by pat_completeness auto
termination
  by (relation "measure (\<lambda>(startX, startY, len, i, acc). nat (len - i))") auto

declare horizontalLoop.simps [simp del]

function verticalLoop :: "int \<Rightarrow> int \<Rightarrow> int \<Rightarrow> int \<Rightarrow> pos list \<Rightarrow> pos list" where
  "verticalLoop startX startY len i acc =
     (if i < len then verticalLoop startX startY len (i + 1) (acc @ [Pos startX (startY + i)])
      else acc)"
  by pat_completeness auto
termination
  by (relation "measure (\<lambda>(startX, startY, len, i, acc). nat (len - i))") auto

declare verticalLoop.simps [simp del]

definition generateRandomPositions :: "int \<Rightarrow> jsstring \<Rightarrow> int \<Rightarrow> rng \<Rightarrow> pos list \<times> rng" where
  "generateRandomPositions len orientation' boardSize' g =
     (if orientation' = js ''horizontal'' then
        (let (r1, g1) = Math_random g;
             startX = \<lfloor>r1 * of_int (boardSize' - len)\<rfloor>;
             (r2, g2) = Math_random g1;
             startY = \<lfloor>r2 * of_int boardSize'\<rfloor>
         in (horizontalLoop startX startY len 0 [], g2))
      else
        (let (r1, g1) = Math_random g;
             startX = \<lfloor>r1 * of_int boardSize'\<rfloor>;
             (r2, g2) = Math_random g1;
             startY = \<lfloor>r2 * of_int (boardSize' - len)\<rfloor>
         in (verticalLoop startX startY len 0 [], g2)))"

record generatedShip =
  gen_id :: jsstring
  gen_type :: jsstring
  gen_positions :: "pos list"
  gen_orientation :: jsstring

text \<open>The callback of \<open>GameState.placement.ships.map\<close>, ship after ship.\<close>

fun generateShips :: "ship list \<Rightarrow> int \<Rightarrow> rng \<Rightarrow> generatedShip list \<times> rng" where
  "generateShips [] boardSize' g = ([], g)"
| "generateShips (sh # shs) boardSize' g =
     (let (r, g1) = Math_random g;
          orientation' = (if r > 0.5 then js ''horizontal'' else js ''vertical'');
          (ps, g2) = generateRandomPositions (ship_length sh) orientation' boardSize' g1;
          (rest, g3) = generateShips shs boardSize' g2
      in (\<lparr>gen_id = ship_id sh, gen_type = ship_type sh, gen_positions = ps,
           gen_orientation = orientation'\<rparr> # rest, g3))"

text \<open>
  \<open>generateRandomPlacement\<close>: the promise resolves with \<open>{success: true, ships}\<close>; the
  result here is the \<open>ships\<close> of that object. An omitted board size is 10.
\<close>

definition generateRandomPlacement :: "int option \<Rightarrow> GameState \<Rightarrow> rng \<Rightarrow> generatedShip list" where
  "generateRandomPlacement boardSize' s g =
     fst (generateShips (ships (placement s)) (case boardSize' of None \<Rightarrow> 10 | Some n \<Rightarrow> n) g)"

section \<open>Requests to the server (api.js)\<close>

text \<open>
  \<open>JSON.stringify\<close> leaves out the fields of an object whose value is \<open>undefined\<close> and
  writes \<open>null\<close> for such an element of an array. The message on the wire is modelled by
  the value its JSON text denotes.
\<close>

fun JSON_stringify :: "jsval \<Rightarrow> jsval" where
  "JSON_stringify (Obj kvs) =
     Obj (map (\<lambda>(k, v). (k, JSON_stringify v)) (filter (\<lambda>(k, v). v \<noteq> Undefined) kvs))"
| "JSON_stringify (Arr vs) =
     Arr (map (\<lambda>v. if v = Undefined then Null else JSON_stringify v) vs)"
| "JSON_stringify v = v"

text \<open>
  The connection: whether the socket is there and open, and what has been handed to
  \<open>ws.send\<close> so far.
\<close>

record API_state =
  ws_open :: bool
  sent :: "jsval list"

definition send :: "jsval \<Rightarrow> API_state \<Rightarrow> API_state" where
  "send message api =
     (if ws_open api then api\<lparr>sent := sent api @ [JSON_stringify message]\<rparr> else api)"

text \<open>\<open>findMatch\<close>, with \<open>now\<close> the value of \<open>Date.now()\<close>.\<close>

definition findMatch :: "jsstring \<Rightarrow> int \<Rightarrow> API_state \<Rightarrow> API_state" where
  "findMatch playerName' now api =
     send (Obj [(''type'', Str (js ''join_game'')),
                (''playerId'', Str (js ''player_'' @ Number_toString now)),
                (''playerName'', Str playerName')]) api"

text \<open>\<open>sendAttack\<close>: the parameter \<open>matchId\<close> is not used; the ids come from the state.\<close>

definition sendAttack :: "jsval \<Rightarrow> jsval \<Rightarrow> GameState \<Rightarrow> API_state \<Rightarrow> API_state" where
  "sendAttack matchId' coordinate s api =
     send (Obj [(''type'', Str (js ''attack'')),
                (''gameId'', matchId s),
                (''playerId'', playerId s),
                (''coordinate'', coordinate)]) api"

text \<open>
  \<open>handleAttackCell\<close> (main.js), as far as the request goes: a cell already marked hit,
  miss or sunk sends nothing; otherwise the cell's indices are formatted and sent.
\<close>

definition handleAttackCell :: "bool \<Rightarrow> int \<Rightarrow> int \<Rightarrow> GameState \<Rightarrow> API_state \<Rightarrow> API_state" where
  "handleAttackCell alreadyAttacked x y s api =
     (if alreadyAttacked then api
      else (let coordinate = formatCoordinate x y
            in sendAttack (matchId s) (Str coordinate) s api))"

section \<open>The handshake (server README)\<close>

text \<open>
  The server is written in Python. A \<open>str\<close> is its list of code points and \<open>bytes\<close> a
  list of numbers below 256; literals are ASCII and are written through \<open>py\<close>.
\<close>

type_synonym pystr = "nat list"
type_synonym bytes = "nat list"

definition py :: "string \<Rightarrow> pystr" where
  "py s = map of_char s"

text \<open>
  \<open>str.encode()\<close>: UTF-8. A surrogate code point raises UnicodeEncodeError (\<open>None\<close>); a
  \<open>str\<close> holds no number from \<open>0x110000\<close> on.
\<close>

definition utf8 :: "nat \<Rightarrow> bytes option" where
  "utf8 c =
     (if c < 0x80 then Some [c]
      else if c < 0x800 then Some [0xC0 + c div 64, 0x80 + c mod 64]
      else if 0xD800 \<le> c \<and> c < 0xE000 then None
      else if c < 0x10000 then Some [0xE0 + c div 4096, 0x80 + c div 64 mod 64, 0x80 + c mod 64]
      else if c < 0x110000
        then Some [0xF0 + c div 262144, 0x80 + c div 4096 mod 64, 0x80 + c div 64 mod 64,
                   0x80 + c mod 64]
      else None)"

fun encode :: "pystr \<Rightarrow> bytes option" where
  "encode [] = Some []"
| "encode (c # cs) =
     (case utf8 c of
        None \<Rightarrow> None
      | Some bs \<Rightarrow> (case encode cs of None \<Rightarrow> None | Some rest \<Rightarrow> Some (bs @ rest)))"

text \<open>
  \<open>bytes.decode()\<close> on ASCII bytes, which is all \<open>b64encode\<close> produces; \<open>None\<close> stands for
  bytes from 128 on, whose decoding is not modelled.
\<close>

definition decode :: "bytes \<Rightarrow> pystr option" where
  "decode bs = (if list_all (\<lambda>b. b < 128) bs then Some bs else None)"

subsection \<open>hashlib.sha1\<close>

text \<open>
  SHA-1 as the standard library computes it (FIPS 180-4), on 32-bit words held as natural
  numbers with the wrap-around written out.
\<close>

definition add32 :: "nat \<Rightarrow> nat \<Rightarrow> nat" where
  "add32 a b = (a + b) mod 4294967296"

definition not32 :: "nat \<Rightarrow> nat" where
  "not32 a = 4294967295 - a"

definition rotl :: "nat \<Rightarrow> nat \<Rightarrow> nat" where
  "rotl n x = (x * 2 ^ n) mod 4294967296 + x div 2 ^ (32 - n)"

definition be32 :: "nat \<Rightarrow> nat \<Rightarrow> nat \<Rightarrow> nat \<Rightarrow> nat" where
  "be32 a b c d = ((a * 256 + b) * 256 + c) * 256 + d"

definition bytes_of_u32 :: "nat \<Rightarrow> bytes" where
  "bytes_of_u32 w = [w div 16777216, w div 65536 mod 256, w div 256 mod 256, w mod 256]"

definition bytes_of_u64 :: "nat \<Rightarrow> bytes" where
  "bytes_of_u64 w = bytes_of_u32 (w div 4294967296 mod 4294967296) @ bytes_of_u32 (w mod 4294967296)"

text \<open>Padding: the bit 1, zeros up to 56 modulo 64, and the length in bits on 8 bytes.\<close>

definition pad :: "bytes \<Rightarrow> bytes" where
  "pad m = m @ [128] @ replicate ((119 - length m mod 64) mod 64) 0 @ bytes_of_u64 (8 * length m)"

fun words :: "bytes \<Rightarrow> nat list" where
  "words (a # b # c # d # rest) = be32 a b c d # words rest"
| "words _ = []"

text \<open>The message schedule, newest word first: 64 words are added to the 16 of the block.\<close>

definition extend :: "nat list \<Rightarrow> nat" where
  "extend r = rotl 1 (r ! 2 XOR r ! 7 XOR r ! 13 XOR r ! 15)"

fun schedule :: "nat \<Rightarrow> nat list \<Rightarrow> nat list" where
  "schedule 0 r = r"
| "schedule (Suc n) r = schedule n (extend r # r)"

definition round_f :: "nat \<Rightarrow> nat \<Rightarrow> nat \<Rightarrow> nat \<Rightarrow> nat" where
  "round_f t b c d =
     (if t < 20 then (b AND c) OR (not32 b AND d)
      else if t < 40 then b XOR c XOR d
      else if t < 60 then (b AND c) OR (b AND d) OR (c AND d)
      else b XOR c XOR d)"

definition round_k :: "nat \<Rightarrow> nat" where
  "round_k t =
     (if t < 20 then 0x5A827999 else if t < 40 then 0x6ED9EBA1
      else if t < 60 then 0x8F1BBCDC else 0xCA62C1D6)"

fun rounds :: "nat \<Rightarrow> nat list \<Rightarrow> nat list \<Rightarrow> nat list" where
  "rounds t (w # ws) [a, b, c, d, e] =
     rounds (t + 1) ws
       [add32 (add32 (add32 (add32 (rotl 5 a) (round_f t b c d)) e) (round_k t)) w,
        a, rotl 30 b, c, d]"
| "rounds t ws s = s"

definition compress :: "nat list \<Rightarrow> bytes \<Rightarrow> nat list" where
  "compress h block = map2 add32 h (rounds 0 (rev (schedule 64 (rev (words block)))) h)"

fun blocks :: "bytes \<Rightarrow> nat list \<Rightarrow> nat list" where
  "blocks [] h = h"
| "blocks m h = blocks (drop 64 m) (compress h (take 64 m))"

definition sha1 :: "bytes \<Rightarrow> bytes" where
  "sha1 m =
     concat (map bytes_of_u32
       (blocks (pad m) [0x67452301, 0xEFCDAB89, 0x98BADCFE, 0x10325476, 0xC3D2E1F0]))"

subsection \<open>base64.b64encode\<close>

definition b64char :: "nat \<Rightarrow> nat" where
  "b64char i =
     (if i < 26 then 65 + i else if i < 52 then 97 + (i - 26)
      else if i < 62 then 48 + (i - 52) else if i = 62 then 43 else 47)"

fun b64encode :: "bytes \<Rightarrow> bytes" where
  "b64encode [] = []"
| "b64encode [a] = [b64char (a div 4), b64char (a mod 4 * 16), 61, 61]"
| "b64encode [a, b] =
     [b64char (a div 4), b64char (a mod 4 * 16 + b div 16), b64char (b mod 16 * 4), 61]"
| "b64encode (a # b # c # rest) =
     [b64char (a div 4), b64char (a mod 4 * 16 + b div 16), b64char (b mod 16 * 4 + c div 64),
      b64char (c mod 64)] @ b64encode rest"

subsection \<open>The accept token and the response\<close>

definition guid :: pystr where
  "guid = py ''258EAFA5-E914-47DA-95CA-C5AB0DC85B11''"

text \<open>
  Modelled from the spec: the server's handshake code (\<open>network/server.py\<close>) is not among
  the sources. The spec has the server compute the accept token as
  \<open>base64(SHA-1(key ++ GUID))\<close> and write a \<open>101 Switching Protocols\<close> response with that
  token; the server's README prints the same computation as the Python function
  \<open>handshake(sock, key)\<close>, and \<open>accept\<close> and \<open>handshake\<close> below follow it line by line.
  \<open>accept\<close> is the value of its local of that name; \<open>None\<close> when a step raises.
\<close>

definition accept :: "pystr \<Rightarrow> pystr option" where
  "accept key =
     (case encode (key @ guid) of
        None \<Rightarrow> None
      | Some bs \<Rightarrow> decode (b64encode (sha1 bs)))"

text \<open>
  Modelled from the spec: \<open>handshake\<close>, the response with the token, as the bytes given to
  \<open>sock.send\<close>.
\<close>

definition handshake :: "pystr \<Rightarrow> bytes option" where
  "handshake key =
     (case accept key of
        None \<Rightarrow> None
      | Some a \<Rightarrow>
          encode (py ''HTTP/1.1 101 Switching Protocols'' @ [13, 10] @
                  py ''Upgrade: websocket'' @ [13, 10] @
                  py ''Connection: Upgrade'' @ [13, 10] @
                  py ''Sec-WebSocket-Accept: '' @ a @ [13, 10, 13, 10]))"

text \<open>
  A valid handshake key (RFC 6455) is the Base64 text of 16 bytes: 22 characters of the
  Base64 alphabet and the padding \<open>==\<close>.
\<close>

definition isB64char :: "nat \<Rightarrow> bool" where
  "isB64char c \<longleftrightarrow>
     (65 \<le> c \<and> c \<le> 90) \<or> (97 \<le> c \<and> c \<le> 122) \<or> (48 \<le> c \<and> c \<le> 57) \<or> c = 43 \<or> c = 47"

definition validKey :: "pystr \<Rightarrow> bool" where
  "validKey key \<longleftrightarrow> length key = 24 \<and> list_all isB64char (take 22 key) \<and> drop 22 key = [61, 61]"

section \<open>Invariant of the interface state\<close>

text \<open>
  What every run keeps: the board size, an orientation that is one of the two words, and
  the fleet of the literal up to the \<open>placed\<close> flags.
\<close>

definition unplaced :: "ship \<Rightarrow> ship" where
  "unplaced sh = sh\<lparr>placed := False\<rparr>"

definition stateInvariant :: "GameState \<Rightarrow> bool" where
  "stateInvariant s \<longleftrightarrow>
     boardSize s = 10 \<and>
     (orientation (placement s) = js ''horizontal'' \<or> orientation (placement s) = js ''vertical'') \<and>
     map unplaced (ships (placement s)) = fleet"

section \<open>Properties of a generated fleet\<close>

text \<open>
  The board invariant a fleet is measured against: every cell inside the \<open>n\<close> by \<open>n\<close>
  grid, every ship a contiguous line from its first cell in its orientation, and no cell
  shared by two ships.
\<close>

definition insideGrid :: "int \<Rightarrow> pos list \<Rightarrow> bool" where
  "insideGrid n ps = list_all (\<lambda>p. 0 \<le> pos_x p \<and> pos_x p < n \<and> 0 \<le> pos_y p \<and> pos_y p < n) ps"

definition contiguousLine :: "jsstring \<Rightarrow> pos list \<Rightarrow> bool" where
  "contiguousLine o' ps =
     (case ps of
        [] \<Rightarrow> True
      | p # _ \<Rightarrow>
          ps = (if o' = js ''horizontal''
                then map (\<lambda>i. Pos (pos_x p + i) (pos_y p)) [0..int (length ps) - 1]
                else map (\<lambda>i. Pos (pos_x p) (pos_y p + i)) [0..int (length ps) - 1]))"

fun noSharedCell :: "generatedShip list \<Rightarrow> bool" where
  "noSharedCell [] = True"
| "noSharedCell (sh # shs) =
     (list_all (\<lambda>t. list_all (\<lambda>p. p \<notin> set (gen_positions t)) (gen_positions sh)) shs \<and>
      noSharedCell shs)"

definition boardInvariant :: "int \<Rightarrow> generatedShip list \<Rightarrow> bool" where
  "boardInvariant n fl \<longleftrightarrow>
     list_all (\<lambda>sh. insideGrid n (gen_positions sh)) fl \<and>
     list_all (\<lambda>sh. contiguousLine (gen_orientation sh) (gen_positions sh)) fl \<and>
     noSharedCell fl"

section \<open>Sample inputs\<close>

text \<open>
  A constant sequence of results of \<open>Math.random()\<close>, and a connection with an open
  socket that has sent nothing.
\<close>

definition halfDraws :: rng where
  "halfDraws k = 1 / 2"

definition openSocket :: API_state where
  "openSocket = \<lparr>ws_open = True, sent = []\<rparr>"

text \<open>The sample key of RFC 6455.\<close>

definition sampleKey :: pystr where
  "sampleKey = py ''dGhlIHNhbXBsZSBub25jZQ==''"

section \<open>Placement validation is bounds and collisions\<close>

lemma boundsLoop_iff:
  "boundsLoop ps b \<longleftrightarrow> (\<forall>p\<in>set ps. 0 \<le> pos_x p \<and> pos_x p < b \<and> 0 \<le> pos_y p \<and> pos_y p < b)"
  by (induction ps) auto

lemma newPosLoop_iff: "newPosLoop e ps \<longleftrightarrow> e \<notin> set ps"
  by (induction ps) (auto simp: pos.expand)

lemma existingPosLoop_iff: "existingPosLoop es ps \<longleftrightarrow> (\<forall>e\<in>set es. e \<notin> set ps)"
  by (induction es) (auto simp: newPosLoop_iff)

lemma existingShipLoop_iff:
  "existingShipLoop ss ps \<longleftrightarrow> (\<forall>sh\<in>set ss. \<forall>e\<in>set (positions sh). e \<notin> set ps)"
  by (induction ss) (auto simp: existingPosLoop_iff)

text \<open>
  C1: \<open>isValidPlacement(positions, existingShips, N)\<close> is true exactly when every position
  has \<open>0 \<le> x < N\<close> and \<open>0 \<le> y < N\<close> and no position is a position of an existing ship.
\<close>

theorem isValidPlacement_iff:
  "isValidPlacement ps existingShips N \<longleftrightarrow>
     (\<forall>p\<in>set ps. 0 \<le> pos_x p \<and> pos_x p < N \<and> 0 \<le> pos_y p \<and> pos_y p < N) \<and>
     (\<forall>sh\<in>set existingShips. \<forall>e\<in>set (positions sh). e \<notin> set ps)"
  by (simp add: isValidPlacement_def boundsLoop_iff existingShipLoop_iff)

theorem isValidPlacement_iff_witness:
  "isValidPlacement [Pos 0 0, Pos 1 0]
     [\<lparr>ship_id = js ''submarine'', ship_name = js ''Submarino'', ship_type = js ''SUBMARINE'',
       ship_length = 2, placed = True, ship_orientation = js ''horizontal'',
       positions = [Pos 0 1, Pos 1 1]\<rparr>] 10 \<and>
   \<not> isValidPlacement [Pos 9 0, Pos 10 0] [] 10 \<and>
   \<not> isValidPlacement [Pos 0 0, Pos 0 1]
     [\<lparr>ship_id = js ''submarine'', ship_name = js ''Submarino'', ship_type = js ''SUBMARINE'',
       ship_length = 2, placed = True, ship_orientation = js ''horizontal'',
       positions = [Pos 0 1, Pos 1 1]\<rparr>] 10"
  by (simp add: isValidPlacement_iff)

section \<open>The two copies of calculateShipPositions\<close>

lemma calculateShipPositions_loop_eq:
  "calculateShipPositions_loop sx sy len o' i acc =
     acc @ map (\<lambda>k. if o' = js ''horizontal'' then Pos (sx + k) sy else Pos sx (sy + k)) [i..len - 1]"
proof (induction sx sy len o' i acc rule: calculateShipPositions_loop.induct)
  case (1 sx sy len o' i acc)
  show ?case
  proof (cases "i < len")
    case True
    then have "[i..len - 1] = i # [i + 1..len - 1]"
      by (simp add: upto_rec1)
    with True 1 show ?thesis
      by (subst calculateShipPositions_loop.simps) simp
  next
    case False
    then show ?thesis
      by (subst calculateShipPositions_loop.simps) simp
  qed
qed

lemma calculateShipPositions_old_loop_eq:
  "calculateShipPositions_old_loop sx sy len o' i acc =
     acc @ map (\<lambda>k. if o' = js ''horizontal'' then Pos (sx + k) sy else Pos sx (sy + k)) [i..len - 1]"
proof (induction sx sy len o' i acc rule: calculateShipPositions_old_loop.induct)
  case (1 sx sy len o' i acc)
  show ?case
  proof (cases "i < len")
    case True
    then have "[i..len - 1] = i # [i + 1..len - 1]"
      by (simp add: upto_rec1)
    with True 1 show ?thesis
      by (subst calculateShipPositions_old_loop.simps) simp
  next
    case False
    then show ?thesis
      by (subst calculateShipPositions_old_loop.simps) simp
  qed
qed

lemma length_upto_from_0: "length [0..len - 1] = nat len"
  by simp

text \<open>
  C9: the two copies of \<open>calculateShipPositions\<close> return the same list for every start
  cell, length and orientation: the cells \<open>(startX + i, startY)\<close> for \<open>i = 0 .. length - 1\<close>
  when the orientation is \<open>'horizontal'\<close>, the cells \<open>(startX, startY + i)\<close> otherwise; the
  list has \<open>length\<close> cells (none for a length below 1).
\<close>

theorem calculateShipPositions_copies_agree:
  "calculateShipPositions startX startY len o' = calculateShipPositions_old startX startY len o' \<and>
   calculateShipPositions startX startY len o' =
     (if o' = js ''horizontal'' then map (\<lambda>i. Pos (startX + i) startY) [0..len - 1]
      else map (\<lambda>i. Pos startX (startY + i)) [0..len - 1]) \<and>
   length (calculateShipPositions startX startY len o') = nat len"
  by (simp add: calculateShipPositions_def calculateShipPositions_old_def
      calculateShipPositions_loop_eq calculateShipPositions_old_loop_eq)

theorem calculateShipPositions_copies_agree_witness:
  "calculateShipPositions 2 7 3 (js ''horizontal'') = [Pos 2 7, Pos 3 7, Pos 4 7] \<and>
   calculateShipPositions_old 2 7 3 (js ''horizontal'') = [Pos 2 7, Pos 3 7, Pos 4 7] \<and>
   calculateShipPositions 2 7 3 (js ''vertical'') = [Pos 2 7, Pos 2 8, Pos 2 9] \<and>
   calculateShipPositions_old 2 7 3 (js ''vertical'') = [Pos 2 7, Pos 2 8, Pos 2 9]"
proof -
  have v: "js ''vertical'' \<noteq> js ''horizontal''"
    by (simp add: js_def)
  have u: "[0..3 - 1] = [0, 1, 2 :: int]"
    by (simp add: upto_rec1)
  show ?thesis
    using calculateShipPositions_copies_agree [of 2 7 3 "js ''horizontal''"]
      calculateShipPositions_copies_agree [of 2 7 3 "js ''vertical''"]
    by (simp only: v u if_True if_False list.map) auto
qed

section \<open>The coordinate notation round trip\<close>

lemma digit_props:
  assumes "d < 10"
  shows "isDigit (of_nat (48 + d))" and "uint (of_nat (48 + d) :: 16 word) = 48 + int d"
proof -
  from assms have "d \<in> {0, 1, 2, 3, 4, 5, 6, 7, 8, 9}" by auto
  then show "isDigit (of_nat (48 + d))" and "uint (of_nat (48 + d) :: 16 word) = 48 + int d"
    by (auto simp: isDigit_def)
qed

lemma parseInt_snoc: "parseInt (ds @ [c]) = 10 * parseInt ds + (uint c - 48)"
  by (simp add: parseInt_def)

lemma digits_props: "digits n \<noteq> [] \<and> list_all isDigit (digits n) \<and> parseInt (digits n) = int n"
proof (induction n rule: digits.induct)
  case (1 n)
  show ?case
  proof (cases "n < 10")
    case True
    then have "digits n = [of_nat (48 + n)]"
      by (subst digits.simps) simp
    with digit_props[OF True] show ?thesis
      by (simp add: parseInt_def del: of_nat_add)
  next
    case False
    have m: "n mod 10 < 10" by simp
    from False have "digits n = digits (n div 10) @ [of_nat (48 + n mod 10)]"
      by (subst digits.simps) simp
    moreover have "10 * int (n div 10) + int (n mod 10) = int n"
      by (simp add: zdiv_int zmod_int)
    ultimately show ?thesis
      using False 1 digit_props[OF m]
      by (simp add: parseInt_snoc del: of_nat_add)
  qed
qed

lemma letter_props:
  assumes "0 \<le> x" "x \<le> 9"
  shows "isLetterAJ (word_of_int (65 + x))"
    and "uint (toUpperCase (word_of_int (65 + x))) - 65 = x"
proof -
  from assms have "x = 0 \<or> x = 1 \<or> x = 2 \<or> x = 3 \<or> x = 4 \<or> x = 5 \<or> x = 6 \<or> x = 7 \<or> x = 8 \<or> x = 9"
    by arith
  then show "isLetterAJ (word_of_int (65 + x))"
    and "uint (toUpperCase (word_of_int (65 + x))) - 65 = x"
    by (elim disjE; simp add: isLetterAJ_def toUpperCase_def)+
qed

text \<open>
  C8: for all integers \<open>x\<close> and \<open>y\<close> with \<open>0 \<le> x \<le> 9\<close> and \<open>0 \<le> y \<le> 9\<close>,
  \<open>parseCoordinate(formatCoordinate(x, y))\<close> succeeds and returns exactly \<open>{x, y}\<close>.
\<close>

theorem parseCoordinate_formatCoordinate:
  assumes "0 \<le> x" "x \<le> 9" "0 \<le> y" "y \<le> 9"
  shows "parseCoordinate (formatCoordinate x y) = Some (Pos x y)"
proof -
  from assms have "Number_toString (y + 1) = digits (nat (y + 1))"
    by (simp add: Number_toString_def)
  moreover have "int (nat (y + 1)) = y + 1" using assms by simp
  ultimately show ?thesis
    using digits_props[of "nat (y + 1)"] letter_props[OF assms(1,2)]
    by (simp add: parseCoordinate_def formatCoordinate_def matchCoordinate_def
        String_fromCharCode_def)
qed

theorem parseCoordinate_formatCoordinate_witness:
  "formatCoordinate 9 9 = js ''J10'' \<and> parseCoordinate (formatCoordinate 9 9) = Some (Pos 9 9)"
proof -
  have "parseCoordinate (formatCoordinate 9 9) = Some (Pos 9 9)"
    using parseCoordinate_formatCoordinate [of 9 9] by simp
  moreover have "formatCoordinate 9 9 = js ''J10''"
    by (simp add: formatCoordinate_def String_fromCharCode_def Number_toString_def js_def
        digits.simps [of 10] digits.simps [of 1] digits.simps [of "Suc 0"])
  ultimately show ?thesis by simp
qed

section \<open>Every run keeps the invariant\<close>

lemma unplaced_markPlaced: "map unplaced (markPlaced shipId shs) = map unplaced shs"
  by (induction shs) (auto simp: unplaced_def)

lemma unplaced_reset: "map (unplaced \<circ> placed_update (\<lambda>_. False)) shs = map unplaced shs"
  by (induction shs) (auto simp: unplaced_def)

lemma invariant_literal: "stateInvariant GameState_literal"
  by (simp add: stateInvariant_def GameState_literal_def fleet_def unplaced_def)

lemma invariant_resetPlacement: "stateInvariant s \<Longrightarrow> stateInvariant (resetPlacement s)"
  by (simp add: stateInvariant_def resetPlacement_def unplaced_reset)

lemma invariant_init: "stateInvariant s \<Longrightarrow> stateInvariant (init s)"
  by (simp add: stateInvariant_def init_def resetPlacement_def unplaced_reset)

lemma invariant_placeShip: "stateInvariant s \<Longrightarrow> stateInvariant (placeShip shipId ps s)"
  by (simp add: stateInvariant_def placeShip_def unplaced_markPlaced split: option.splits)

lemma invariant_rotateShip: "stateInvariant s \<Longrightarrow> stateInvariant (rotateShip s)"
  by (simp add: stateInvariant_def rotateShip_def)

lemma invariant_step: "stateInvariant s \<Longrightarrow> stateInvariant (step a s)"
proof (cases a)
  case Init
  then show "stateInvariant s \<Longrightarrow> ?thesis" by (simp add: invariant_init)
next
  case (PlaceShip shipId ps)
  then show "stateInvariant s \<Longrightarrow> ?thesis" by (simp add: invariant_placeShip)
next
  case RotateShip
  then show "stateInvariant s \<Longrightarrow> ?thesis" by (simp add: invariant_rotateShip)
next
  case ResetPlacement
  then show "stateInvariant s \<Longrightarrow> ?thesis" by (simp add: invariant_resetPlacement)
next
  case Reset
  then show "stateInvariant s \<Longrightarrow> ?thesis" by (simp add: reset_def invariant_init)
qed (simp_all add: stateInvariant_def switchScreen_def setPlayerName_def initDefenseBoard_def
      initAttackBoard_def selectShip_def addCombatLog_def updateDefenseCell_def
      updateAttackCell_def startGameTimer_def stopGameTimer_def split: option.splits)

lemma invariant_fold: "stateInvariant s \<Longrightarrow> stateInvariant (fold step acts s)"
  by (induction acts arbitrary: s) (simp_all add: invariant_step)

lemma invariant_run: "stateInvariant (run acts)"
  by (simp add: run_def invariant_fold invariant_literal)

lemma fleet_tags:
  assumes "map unplaced shs = fleet"
  shows "map (\<lambda>sh. (ship_type sh, ship_length sh)) shs =
     [(js ''AIRCRAFT_CARRIER'', 5), (js ''BATTLESHIP'', 4), (js ''CRUISER'', 3),
      (js ''DESTROYER'', 3), (js ''SUBMARINE'', 2)]"
proof -
  have "map (\<lambda>sh. (ship_type sh, ship_length sh)) shs
      = map (\<lambda>sh. (ship_type sh, ship_length sh)) (map unplaced shs)"
    by (simp add: unplaced_def)
  also have "\<dots> = map (\<lambda>sh. (ship_type sh, ship_length sh)) fleet"
    by (simp only: assms)
  finally show ?thesis
    by (simp add: fleet_def)
qed

text \<open>
  C3: the fleet used for placement has exactly five ships, with the type tags
  AIRCRAFT_CARRIER, BATTLESHIP, CRUISER, DESTROYER, SUBMARINE and the lengths 5, 4, 3, 3, 2 in
  that order, in the state as loaded, after \<open>init\<close> and after \<open>reset\<close> at any point of a run
  (and at every other point of a run as well).
\<close>

theorem fleet_fixed:
  "map (\<lambda>sh. (ship_type sh, ship_length sh)) (ships (placement GameState_literal)) =
     [(js ''AIRCRAFT_CARRIER'', 5), (js ''BATTLESHIP'', 4), (js ''CRUISER'', 3),
      (js ''DESTROYER'', 3), (js ''SUBMARINE'', 2)] \<and>
   map (\<lambda>sh. (ship_type sh, ship_length sh)) (ships (placement (init (run acts)))) =
     [(js ''AIRCRAFT_CARRIER'', 5), (js ''BATTLESHIP'', 4), (js ''CRUISER'', 3),
      (js ''DESTROYER'', 3), (js ''SUBMARINE'', 2)] \<and>
   map (\<lambda>sh. (ship_type sh, ship_length sh)) (ships (placement (reset (run acts)))) =
     [(js ''AIRCRAFT_CARRIER'', 5), (js ''BATTLESHIP'', 4), (js ''CRUISER'', 3),
      (js ''DESTROYER'', 3), (js ''SUBMARINE'', 2)] \<and>
   map (\<lambda>sh. (ship_type sh, ship_length sh)) (ships (placement (run acts))) =
     [(js ''AIRCRAFT_CARRIER'', 5), (js ''BATTLESHIP'', 4), (js ''CRUISER'', 3),
      (js ''DESTROYER'', 3), (js ''SUBMARINE'', 2)]"
proof -
  have a: "stateInvariant GameState_literal" by (rule invariant_literal)
  have b: "stateInvariant (init (run acts))" by (rule invariant_init[OF invariant_run])
  have c: "stateInvariant (reset (run acts))" by (simp add: reset_def b)
  have d: "stateInvariant (run acts)" by (rule invariant_run)
  show ?thesis
    using a b c d by (simp add: stateInvariant_def fleet_tags)
qed

theorem fleet_fixed_witness:
  "map (\<lambda>sh. (ship_type sh, ship_length sh))
     (ships (placement (reset (run [PlaceShip (js ''cruiser'') [Pos 0 0, Pos 1 0, Pos 2 0],
                                     RotateShip, MoveCounted])))) =
     [(js ''AIRCRAFT_CARRIER'', 5), (js ''BATTLESHIP'', 4), (js ''CRUISER'', 3),
      (js ''DESTROYER'', 3), (js ''SUBMARINE'', 2)]"
  using fleet_fixed [of "[PlaceShip (js ''cruiser'') [Pos 0 0, Pos 1 0, Pos 2 0],
                          RotateShip, MoveCounted]"]
  by (rule conjunct2 [THEN conjunct2, THEN conjunct1])

lemma emptyBoard_10:
  "emptyBoard 10 = Some (replicate 10 (replicate 10 (Str (js ''empty''))))"
  by (simp add: emptyBoard_def Array_n_def fill_def map_replicate_const)

text \<open>
  C6: \<open>GameState.boardSize\<close> is 10, as loaded and at every point of a run, and there
  \<open>initDefenseBoard()\<close> (respectively \<open>initAttackBoard()\<close>) returns normally and leaves the
  defense (respectively attack) board a list of 10 rows of 10 cells, each \<open>'empty'\<close>, with
  the rest of the state as it was.
\<close>

theorem boards_10_by_10_empty:
  "boardSize GameState_literal = 10 \<and> boardSize (run acts) = 10 \<and>
   initDefenseBoard (run acts) =
     Some ((run acts)\<lparr>game := (game (run acts))
        \<lparr>defenseBoard := replicate 10 (replicate 10 (Str (js ''empty'')))\<rparr>\<rparr>) \<and>
   initAttackBoard (run acts) =
     Some ((run acts)\<lparr>game := (game (run acts))
        \<lparr>attackBoard := replicate 10 (replicate 10 (Str (js ''empty'')))\<rparr>\<rparr>)"
  using invariant_run[of acts] invariant_literal
  by (simp add: stateInvariant_def initDefenseBoard_def initAttackBoard_def emptyBoard_10)

theorem boards_10_by_10_empty_witness:
  "defenseBoard (game (step InitDefenseBoard (run [SelectShip Null, MoveCounted]))) =
     replicate 10 (replicate 10 (Str (js ''empty'')))"
  using boards_10_by_10_empty [of "[SelectShip Null, MoveCounted]"]
  by simp

text \<open>
  C10: at every point of a run the orientation is \<open>'horizontal'\<close> or \<open>'vertical'\<close>; one call
  of \<open>rotateShip\<close> replaces it by the other of the two and changes nothing else in the
  state; two calls in a row give the state back exactly.
\<close>

theorem rotateShip_involution:
  "(orientation (placement (run acts)) = js ''horizontal'' \<or>
    orientation (placement (run acts)) = js ''vertical'') \<and>
   rotateShip (run acts) =
     (run acts)\<lparr>placement := (placement (run acts))\<lparr>orientation :=
        (if orientation (placement (run acts)) = js ''horizontal''
         then js ''vertical'' else js ''horizontal'')\<rparr>\<rparr> \<and>
   rotateShip (rotateShip (run acts)) = run acts"
  using invariant_run[of acts]
  by (auto simp add: stateInvariant_def rotateShip_def js_def)

theorem rotateShip_involution_witness:
  "rotateShip (rotateShip (run [RotateShip, SelectShip (Str (js ''carrier''))])) =
     run [RotateShip, SelectShip (Str (js ''carrier''))]"
  using rotateShip_involution [of "[RotateShip, SelectShip (Str (js ''carrier''))]"]
  by (rule conjunct2 [THEN conjunct2])

section \<open>Random placement: lines inside the grid\<close>

lemma horizontalLoop_eq:
  "horizontalLoop sx sy len i acc = acc @ map (\<lambda>k. Pos (sx + k) sy) [i..len - 1]"
proof (induction sx sy len i acc rule: horizontalLoop.induct)
  case (1 sx sy len i acc)
  show ?case
  proof (cases "i < len")
    case True
    then have "[i..len - 1] = i # [i + 1..len - 1]"
      by (simp add: upto_rec1)
    with True 1 show ?thesis
      by (subst horizontalLoop.simps) simp
  next
    case False
    then show ?thesis
      by (subst horizontalLoop.simps) simp
  qed
qed

lemma verticalLoop_eq:
  "verticalLoop sx sy len i acc = acc @ map (\<lambda>k. Pos sx (sy + k)) [i..len - 1]"
proof (induction sx sy len i acc rule: verticalLoop.induct)
  case (1 sx sy len i acc)
  show ?case
  proof (cases "i < len")
    case True
    then have "[i..len - 1] = i # [i + 1..len - 1]"
      by (simp add: upto_rec1)
    with True 1 show ?thesis
      by (subst verticalLoop.simps) simp
  next
    case False
    then show ?thesis
      by (subst verticalLoop.simps) simp
  qed
qed

lemma floor_draw:
  assumes "0 \<le> r" "r < 1" "0 \<le> k"
  shows "0 \<le> \<lfloor>r * of_int k\<rfloor>" and "\<lfloor>r * of_int k\<rfloor> < k \<or> k = 0"
proof -
  have "0 \<le> r * of_int k" using assms by simp
  then show "0 \<le> \<lfloor>r * of_int k\<rfloor>" by simp
  show "\<lfloor>r * of_int k\<rfloor> < k \<or> k = 0"
  proof (cases "k = 0")
    case False
    with assms have "0 < (of_int k :: real)" by simp
    with assms have "r * of_int k < 1 * of_int k"
      by (intro mult_strict_right_mono) simp_all
    then have "\<lfloor>r * of_int k\<rfloor> < k" by (simp add: floor_less_iff)
    then show ?thesis ..
  qed simp
qed

lemma contiguous_horizontal:
  "contiguousLine (js ''horizontal'') (map (\<lambda>k. Pos (sx + k) sy) [0..len - 1])"
proof (cases "0 < len")
  case True
  then have "[0..len - 1] = 0 # [1..len - 1]" by (simp add: upto_rec1)
  with True show ?thesis by (simp add: contiguousLine_def)
next
  case False
  then show ?thesis by (simp add: contiguousLine_def)
qed

lemma contiguous_vertical:
  "o' \<noteq> js ''horizontal'' \<Longrightarrow> contiguousLine o' (map (\<lambda>k. Pos sx (sy + k)) [0..len - 1])"
proof (cases "0 < len")
  case True
  assume "o' \<noteq> js ''horizontal''"
  moreover from True have "[0..len - 1] = 0 # [1..len - 1]" by (simp add: upto_rec1)
  ultimately show ?thesis using True by (simp add: contiguousLine_def)
next
  case False
  then show ?thesis by (simp add: contiguousLine_def)
qed

lemma generateRandomPositions_props:
  assumes draws: "\<And>k. 0 \<le> g k \<and> g k < 1" and len: "0 \<le> len" "len \<le> n"
  shows "insideGrid n (fst (generateRandomPositions len o' n g))"
    and "contiguousLine o' (fst (generateRandomPositions len o' n g))"
    and "length (fst (generateRandomPositions len o' n g)) = nat len"
    and "snd (generateRandomPositions len o' n g) = (\<lambda>k. g (Suc (Suc k)))"
proof -
  have n0: "0 \<le> n" and d0: "0 \<le> n - len" using len by simp_all
  note a = floor_draw[OF conjunct1[OF draws[of 0]] conjunct2[OF draws[of 0]]]
  note b = floor_draw[OF conjunct1[OF draws[of 1]] conjunct2[OF draws[of 1]]]
  show "snd (generateRandomPositions len o' n g) = (\<lambda>k. g (Suc (Suc k)))"
    by (simp add: generateRandomPositions_def Math_random_def)
  show "length (fst (generateRandomPositions len o' n g)) = nat len"
    by (simp add: generateRandomPositions_def Math_random_def horizontalLoop_eq verticalLoop_eq)
  show "contiguousLine o' (fst (generateRandomPositions len o' n g))"
    by (simp add: generateRandomPositions_def Math_random_def horizontalLoop_eq verticalLoop_eq
        contiguous_horizontal contiguous_vertical)
  show "insideGrid n (fst (generateRandomPositions len o' n g))"
  proof (cases "o' = js ''horizontal''")
    case True
    have "\<forall>k\<in>{0..len - 1}. \<lfloor>g 0 * of_int (n - len)\<rfloor> + k < n"
      using a(2)[OF d0] len by auto
    moreover have "\<forall>k\<in>{0..len - 1}. 0 \<le> \<lfloor>g 0 * of_int (n - len)\<rfloor> + k"
      using a(1)[OF d0] by auto
    moreover have "len \<le> 0 \<or> \<lfloor>g 1 * of_int n\<rfloor> < n"
      using b(2)[OF n0] len by auto
    ultimately show ?thesis
      using True b(1)[OF n0]
      by (auto simp add: generateRandomPositions_def Math_random_def horizontalLoop_eq
          insideGrid_def list_all_iff)
  next
    case False
    have "\<forall>k\<in>{0..len - 1}. \<lfloor>g 1 * of_int (n - len)\<rfloor> + k < n"
      using b(2)[OF d0] len by auto
    moreover have "\<forall>k\<in>{0..len - 1}. 0 \<le> \<lfloor>g 1 * of_int (n - len)\<rfloor> + k"
      using b(1)[OF d0] by auto
    moreover have "len \<le> 0 \<or> \<lfloor>g 0 * of_int n\<rfloor> < n"
      using a(2)[OF n0] len by auto
    ultimately show ?thesis
      using False a(1)[OF n0]
      by (auto simp add: generateRandomPositions_def Math_random_def verticalLoop_eq
          insideGrid_def list_all_iff)
  qed
qed

lemma generateShips_props:
  assumes "\<And>k. 0 \<le> g k \<and> g k < 1"
    and "\<forall>sh\<in>set shs. 0 \<le> ship_length sh \<and> ship_length sh \<le> n"
  shows "map gen_id (fst (generateShips shs n g)) = map ship_id shs \<and>
         map gen_type (fst (generateShips shs n g)) = map ship_type shs \<and>
         map (\<lambda>sh. int (length (gen_positions sh))) (fst (generateShips shs n g)) = map ship_length shs \<and>
         list_all (\<lambda>sh. insideGrid n (gen_positions sh) \<and>
                        contiguousLine (gen_orientation sh) (gen_positions sh) \<and>
                        (gen_orientation sh = js ''horizontal'' \<or> gen_orientation sh = js ''vertical''))
           (fst (generateShips shs n g))"
  using assms
proof (induction shs arbitrary: g)
  case Nil
  then show ?case by simp
next
  case (Cons sh shs)
  define o' where "o' = (if g 0 > 0.5 then js ''horizontal'' else js ''vertical'')"
  define g1 where "g1 = (\<lambda>k. g (Suc k))"
  define g2 where "g2 = (\<lambda>k. g1 (Suc (Suc k)))"
  have d1: "\<And>k. 0 \<le> g1 k \<and> g1 k < 1" and d2: "\<And>k. 0 \<le> g2 k \<and> g2 k < 1"
    using Cons.prems(1) by (simp_all add: g1_def g2_def)
  have len: "0 \<le> ship_length sh" "ship_length sh \<le> n"
    using Cons.prems(2) by simp_all
  note p = generateRandomPositions_props[of g1, OF d1 len, of o']
  have rest: "\<forall>sh\<in>set shs. 0 \<le> ship_length sh \<and> ship_length sh \<le> n"
    using Cons.prems(2) by simp
  note ih = Cons.IH[of g2, OF d2 rest]
  have unfold: "fst (generateShips (sh # shs) n g) =
      \<lparr>gen_id = ship_id sh, gen_type = ship_type sh,
       gen_positions = fst (generateRandomPositions (ship_length sh) o' n g1),
       gen_orientation = o'\<rparr> # fst (generateShips shs n g2)"
    using p(4)
    by (simp add: Math_random_def split_def Let_def o'_def g1_def g2_def)
  have "o' = js ''horizontal'' \<or> o' = js ''vertical''"
    by (simp add: o'_def)
  with p(1,2,3) ih len show ?case
    unfolding unfold by simp
qed

lemma fleet_fields:
  assumes "map unplaced shs = fleet"
  shows "map ship_id shs = map ship_id fleet"
    and "map ship_type shs = map ship_type fleet"
    and "map ship_length shs = [5, 4, 3, 3, 2]"
proof -
  have "map ship_id shs = map ship_id (map unplaced shs)"
    and "map ship_type shs = map ship_type (map unplaced shs)"
    and "map ship_length shs = map ship_length (map unplaced shs)"
    by (simp_all add: unplaced_def)
  then show "map ship_id shs = map ship_id fleet"
    and "map ship_type shs = map ship_type fleet"
    and "map ship_length shs = [5, 4, 3, 3, 2]"
    by (simp_all add: assms) (simp add: fleet_def)
qed

text \<open>
  What the generator does keep: for every board size of at least 5, every outcome of the
  random choices and every point of a run, it returns the five ships of the fleet in
  order, each with as many cells as its length, all of them inside the grid, forming a
  contiguous line in the ship's orientation, which is \<open>'horizontal'\<close> or \<open>'vertical'\<close>; an
  omitted board size counts as 10.
\<close>

lemma generateRandomPlacement_lines_in_grid:
  assumes "\<forall>k. 0 \<le> g k \<and> g k < 1" and "5 \<le> n"
  shows "map gen_id (generateRandomPlacement (Some n) (run acts) g) = map ship_id fleet \<and>
         map gen_type (generateRandomPlacement (Some n) (run acts) g) = map ship_type fleet \<and>
         map (\<lambda>sh. int (length (gen_positions sh))) (generateRandomPlacement (Some n) (run acts) g) =
           [5, 4, 3, 3, 2] \<and>
         list_all (\<lambda>sh. insideGrid n (gen_positions sh) \<and>
                        contiguousLine (gen_orientation sh) (gen_positions sh) \<and>
                        (gen_orientation sh = js ''horizontal'' \<or> gen_orientation sh = js ''vertical''))
           (generateRandomPlacement (Some n) (run acts) g) \<and>
         generateRandomPlacement None (run acts) g = generateRandomPlacement (Some 10) (run acts) g"
proof -
  have inv: "map unplaced (ships (placement (run acts))) = fleet"
    using invariant_run[of acts] by (simp add: stateInvariant_def)
  note f = fleet_fields[OF inv]
  have "ship_length ` set (ships (placement (run acts))) = set [5, 4, 3, 3, 2]"
    using f(3) by (metis set_map)
  then have "\<forall>sh\<in>set (ships (placement (run acts))). ship_length sh \<in> {5, 4, 3, 2}"
    by auto
  with assms(2) have lens: "\<forall>sh\<in>set (ships (placement (run acts))). 0 \<le> ship_length sh \<and> ship_length sh \<le> n"
    by auto
  show ?thesis
    using generateShips_props[of g "ships (placement (run acts))" n, OF spec[OF assms(1)] lens] f
    by (simp add: generateRandomPlacement_def)
qed

lemma halfDraws_shift: "(\<lambda>k. halfDraws (Suc k)) = halfDraws"
  by (simp add: halfDraws_def fun_eq_iff)

lemma half_placement_10:
  "generateRandomPlacement (Some 10) GameState_literal halfDraws =
     [\<lparr>gen_id = js ''carrier'', gen_type = js ''AIRCRAFT_CARRIER'',
       gen_positions = [Pos 5 2, Pos 5 3, Pos 5 4, Pos 5 5, Pos 5 6], gen_orientation = js ''vertical''\<rparr>,
      \<lparr>gen_id = js ''battleship'', gen_type = js ''BATTLESHIP'',
       gen_positions = [Pos 5 3, Pos 5 4, Pos 5 5, Pos 5 6], gen_orientation = js ''vertical''\<rparr>,
      \<lparr>gen_id = js ''cruiser'', gen_type = js ''CRUISER'',
       gen_positions = [Pos 5 3, Pos 5 4, Pos 5 5], gen_orientation = js ''vertical''\<rparr>,
      \<lparr>gen_id = js ''destroyer'', gen_type = js ''DESTROYER'',
       gen_positions = [Pos 5 3, Pos 5 4, Pos 5 5], gen_orientation = js ''vertical''\<rparr>,
      \<lparr>gen_id = js ''submarine'', gen_type = js ''SUBMARINE'',
       gen_positions = [Pos 5 4, Pos 5 5], gen_orientation = js ''vertical''\<rparr>]"
  by (simp add: generateRandomPlacement_def GameState_literal_def fleet_def
      generateRandomPositions_def Math_random_def halfDraws_shift verticalLoop_eq horizontalLoop_eq js_def)
    (simp add: halfDraws_def Let_def upto_rec1)

lemma reset_state:
  "ships (placement (run [ResetPlacement])) = fleet \<and> boardSize (run [ResetPlacement]) = 10 \<and>
   placedShips (placement (run [ResetPlacement])) = []"
  by (simp add: run_def resetPlacement_def GameState_literal_def fleet_def)

lemma half_placement_reset:
  "generateRandomPlacement (Some (boardSize (run [ResetPlacement]))) (run [ResetPlacement]) halfDraws =
     generateRandomPlacement (Some 10) GameState_literal halfDraws"
  using reset_state by (simp add: generateRandomPlacement_def GameState_literal_def)

text \<open>
  C2: the fleet returned by \<open>generateRandomPlacement\<close> is to satisfy the board invariant:
  cells inside the grid, each ship a contiguous line, and no cell shared by two ships. The
  code breaks the last part. The random-placement handler resets the placement and passes
  \<open>GameState.boardSize\<close>; when every call of \<open>Math.random()\<close> yields \<open>0.5\<close>, all five
  ships stand in column 5 and share cells, so the fleet fails the invariant on the board
  of 10. The manual path refuses the same second ship: \<open>isValidPlacement\<close> is false for the
  battleship's cells once the carrier is placed.
\<close>

theorem generateRandomPlacement_ships_overlap:
  "generateRandomPlacement (Some (boardSize (run [ResetPlacement]))) (run [ResetPlacement]) halfDraws =
     [\<lparr>gen_id = js ''carrier'', gen_type = js ''AIRCRAFT_CARRIER'',
       gen_positions = [Pos 5 2, Pos 5 3, Pos 5 4, Pos 5 5, Pos 5 6], gen_orientation = js ''vertical''\<rparr>,
      \<lparr>gen_id = js ''battleship'', gen_type = js ''BATTLESHIP'',
       gen_positions = [Pos 5 3, Pos 5 4, Pos 5 5, Pos 5 6], gen_orientation = js ''vertical''\<rparr>,
      \<lparr>gen_id = js ''cruiser'', gen_type = js ''CRUISER'',
       gen_positions = [Pos 5 3, Pos 5 4, Pos 5 5], gen_orientation = js ''vertical''\<rparr>,
      \<lparr>gen_id = js ''destroyer'', gen_type = js ''DESTROYER'',
       gen_positions = [Pos 5 3, Pos 5 4, Pos 5 5], gen_orientation = js ''vertical''\<rparr>,
      \<lparr>gen_id = js ''submarine'', gen_type = js ''SUBMARINE'',
       gen_positions = [Pos 5 4, Pos 5 5], gen_orientation = js ''vertical''\<rparr>] \<and>
   \<not> noSharedCell
       (generateRandomPlacement (Some (boardSize (run [ResetPlacement]))) (run [ResetPlacement]) halfDraws) \<and>
   \<not> boardInvariant 10
       (generateRandomPlacement (Some (boardSize (run [ResetPlacement]))) (run [ResetPlacement]) halfDraws) \<and>
   \<not> isValidPlacement [Pos 5 3, Pos 5 4, Pos 5 5, Pos 5 6]
       (placedShips (placement (placeShip (js ''carrier'') [Pos 5 2, Pos 5 3, Pos 5 4, Pos 5 5, Pos 5 6]
          (run [ResetPlacement])))) 10"
proof -
  have "placedShips (placement (placeShip (js ''carrier'') [Pos 5 2, Pos 5 3, Pos 5 4, Pos 5 5, Pos 5 6]
          (run [ResetPlacement]))) =
        [\<lparr>ship_id = js ''carrier'', ship_name = js ''Portaaviones'', ship_type = js ''AIRCRAFT_CARRIER'',
          ship_length = 5, placed = True, ship_orientation = js ''horizontal'',
          positions = [Pos 5 2, Pos 5 3, Pos 5 4, Pos 5 5, Pos 5 6]\<rparr>]"
    by (simp add: placeShip_def run_def resetPlacement_def GameState_literal_def fleet_def js_def)
  then have "\<not> isValidPlacement [Pos 5 3, Pos 5 4, Pos 5 5, Pos 5 6]
       (placedShips (placement (placeShip (js ''carrier'') [Pos 5 2, Pos 5 3, Pos 5 4, Pos 5 5, Pos 5 6]
          (run [ResetPlacement])))) 10"
    by (simp add: isValidPlacement_def)
  then show ?thesis
    by (simp only: half_placement_reset half_placement_10 simp_thms)
       (simp add: boardInvariant_def)
qed

section \<open>The requests on the wire\<close>

text \<open>
  C5, as amended: every join request the client sends is the message
  \<open>{type: "join_game", playerId, playerName}\<close>: the type is the string \<open>"join_game"\<close>, the
  player id is \<open>"player_"\<close> followed by the decimal time stamp, and the name is the one
  given; with no open socket nothing is sent.
\<close>

theorem findMatch_join_game_message:
  "sent (findMatch name now api) =
     (if ws_open api
      then sent api @ [Obj [(''type'', Str (js ''join_game'')),
                            (''playerId'', Str (js ''player_'' @ Number_toString now)),
                            (''playerName'', Str name)]]
      else sent api)"
  by (simp add: findMatch_def send_def)

theorem findMatch_counterexample:
  "sent (findMatch (js ''Juan'') 1707405600000 openSocket) =
     [Obj [(''type'', Str (js ''join_game'')),
           (''playerId'', Str (js ''player_1707405600000'')),
           (''playerName'', Str (js ''Juan''))]] \<and>
   field ''type'' (Obj [(''type'', Str (js ''join_game'')),
           (''playerId'', Str (js ''player_1707405600000'')),
           (''playerName'', Str (js ''Juan''))]) \<noteq> Some (Str (js ''join''))"
  by (simp add: findMatch_def send_def openSocket_def Number_toString_def js_def digits.simps)

theorem findMatch_join_game_message_witness:
  "sent (findMatch (js ''Ana'') 5 openSocket) =
     [Obj [(''type'', Str (js ''join_game'')),
           (''playerId'', Str (js ''player_5'')),
           (''playerName'', Str (js ''Ana''))]]"
proof -
  have "Number_toString 5 = js ''5''"
    by (simp add: Number_toString_def js_def digits.simps)
  then show ?thesis
    using findMatch_join_game_message [of "js ''Ana''" 5 openSocket]
    by (simp add: openSocket_def js_def)
qed

text \<open>
  C4, as amended: every attack request the client sends is the JSON text of
  \<open>{type: "attack", gameId, playerId, coordinate}\<close>: the type is the string \<open>"attack"\<close>,
  the field \<open>gameId\<close> carries \<open>GameState.matchId\<close>, \<open>playerId\<close> carries
  \<open>GameState.playerId\<close> and \<open>coordinate\<close> carries the value handed to \<open>sendAttack\<close>, each
  of the three left out when it is \<open>undefined\<close>; with no open socket nothing is sent.
\<close>

theorem sendAttack_message:
  "sent (sendAttack m c s api) =
     (if ws_open api
      then sent api @ [JSON_stringify (Obj [(''type'', Str (js ''attack'')), (''gameId'', matchId s),
                                            (''playerId'', playerId s), (''coordinate'', c)])]
      else sent api) \<and>
   field ''type'' (JSON_stringify (Obj [(''type'', Str (js ''attack'')), (''gameId'', matchId s),
                                        (''playerId'', playerId s), (''coordinate'', c)])) =
     Some (Str (js ''attack'')) \<and>
   field ''gameId'' (JSON_stringify (Obj [(''type'', Str (js ''attack'')), (''gameId'', matchId s),
                                          (''playerId'', playerId s), (''coordinate'', c)])) =
     (if matchId s = Undefined then None else Some (JSON_stringify (matchId s))) \<and>
   field ''playerId'' (JSON_stringify (Obj [(''type'', Str (js ''attack'')), (''gameId'', matchId s),
                                            (''playerId'', playerId s), (''coordinate'', c)])) =
     (if playerId s = Undefined then None else Some (JSON_stringify (playerId s))) \<and>
   field ''coordinate'' (JSON_stringify (Obj [(''type'', Str (js ''attack'')), (''gameId'', matchId s),
                                              (''playerId'', playerId s), (''coordinate'', c)])) =
     (if c = Undefined then None else Some (JSON_stringify c))"
  by (simp add: sendAttack_def send_def)

theorem sendAttack_counterexample:
  "sent (handleAttackCell False 5 7
          (run [StoreMatch (Str (js ''game_0'')) (Str (js ''player_123''))]) openSocket) =
     [Obj [(''type'', Str (js ''attack'')), (''gameId'', Str (js ''game_0'')),
           (''playerId'', Str (js ''player_123'')), (''coordinate'', Str (js ''F8''))]] \<and>
   field ''matchId'' (Obj [(''type'', Str (js ''attack'')), (''gameId'', Str (js ''game_0'')),
           (''playerId'', Str (js ''player_123'')), (''coordinate'', Str (js ''F8''))]) = None"
  by (simp add: handleAttackCell_def sendAttack_def send_def openSocket_def run_def
      GameState_literal_def formatCoordinate_def String_fromCharCode_def Number_toString_def
      digits.simps js_def)

theorem sendAttack_message_witness:
  "sent (sendAttack Null (Obj [(''x'', Num 5), (''y'', Num 7)]) GameState_literal openSocket) =
     [Obj [(''type'', Str (js ''attack'')), (''gameId'', Null), (''playerId'', Null),
           (''coordinate'', Obj [(''x'', Num 5), (''y'', Num 7)])]]"
  using sendAttack_message [of Null "Obj [(''x'', Num 5), (''y'', Num 7)]" GameState_literal openSocket]
  by (simp add: openSocket_def GameState_literal_def)

section \<open>The accept token of the handshake\<close>

lemma encode_ascii: "list_all (\<lambda>c. c < 128) cs \<Longrightarrow> encode cs = Some cs"
  by (induction cs) (simp_all add: utf8_def)

lemma b64char_ascii: "b64char i < 128"
  by (auto simp: b64char_def)

lemma b64encode_ascii: "list_all (\<lambda>c. c < 128) (b64encode bs)"
  by (induction bs rule: b64encode.induct) (simp_all add: b64char_ascii)

lemma py_ascii_guid: "list_all (\<lambda>c. c < 128) guid"
  by (simp add: guid_def py_def)

lemma validKey_ascii:
  assumes "validKey key"
  shows "list_all (\<lambda>c. c < 128) key"
proof -
  have "key = take 22 key @ drop 22 key" by simp
  moreover have "list_all (\<lambda>c. c < 128) (take 22 key)"
    using assms by (auto simp: validKey_def list_all_iff isB64char_def)
  moreover have "list_all (\<lambda>c. c < 128) (drop 22 key)"
    using assms by (simp add: validKey_def)
  ultimately show ?thesis
    by (metis list_all_append)
qed

text \<open>
  C7: for every valid handshake key \<open>K\<close>, the accept token \<open>handshake\<close> computes is
  \<open>base64(SHA1(K + "258EAFA5-E914-47DA-95CA-C5AB0DC85B11"))\<close>, and it is the value of the
  \<open>Sec-WebSocket-Accept\<close> header of the 101 response that is sent.
\<close>

theorem handshake_accept_token:
  assumes "validKey K"
  shows "accept K = Some (b64encode (sha1 (K @ guid))) \<and>
         handshake K =
           Some (py ''HTTP/1.1 101 Switching Protocols'' @ [13, 10] @
                 py ''Upgrade: websocket'' @ [13, 10] @
                 py ''Connection: Upgrade'' @ [13, 10] @
                 py ''Sec-WebSocket-Accept: '' @ b64encode (sha1 (K @ guid)) @ [13, 10, 13, 10])"
proof -
  have "list_all (\<lambda>c. c < 128) (K @ guid)"
    using validKey_ascii[OF assms] py_ascii_guid by simp
  then have a: "accept K = Some (b64encode (sha1 (K @ guid)))"
    by (simp add: accept_def encode_ascii decode_def b64encode_ascii)
  have "list_all (\<lambda>c. c < 128)
          (py ''HTTP/1.1 101 Switching Protocols'' @ [13, 10] @
           py ''Upgrade: websocket'' @ [13, 10] @
           py ''Connection: Upgrade'' @ [13, 10] @
           py ''Sec-WebSocket-Accept: '' @ b64encode (sha1 (K @ guid)) @ [13, 10, 13, 10])"
    by (simp add: py_def b64encode_ascii)
  then show ?thesis
    by (simp only: handshake_def a option.case encode_ascii simp_thms)
qed

text \<open>
  On the sample key of RFC 6455 the token is the one the RFC gives,
  \<open>s3pPLMBiTxaQ9kYGzzhZRbK+xOo=\<close>.
\<close>

lemma schedule_numeral:
  "schedule (numeral k) r = schedule (pred_numeral k) (extend r # r)"
  by (simp add: numeral_eq_Suc)

lemma zeros_numeral:
  "replicate (numeral k) (0::nat) = 0 # replicate (pred_numeral k) 0"
  by (simp add: numeral_eq_Suc)

lemma sample_digest:
  "sha1 (sampleKey @ guid) =
     [0xb3, 0x7a, 0x4f, 0x2c, 0xc0, 0x62, 0x4f, 0x16, 0x90, 0xf6,
      0x46, 0x06, 0xcf, 0x38, 0x59, 0x45, 0xb2, 0xbe, 0xc4, 0xea]"
  by (simp add: sampleKey_def guid_def py_def sha1_def pad_def bytes_of_u64_def bytes_of_u32_def
      be32_def compress_def extend_def schedule_numeral round_f_def round_k_def rotl_def
      add32_def not32_def zeros_numeral)

theorem handshake_accept_token_witness:
  "validKey sampleKey \<and> accept sampleKey = Some (py ''s3pPLMBiTxaQ9kYGzzhZRbK+xOo='')"
proof -
  have v: "validKey sampleKey"
    by (simp add: validKey_def sampleKey_def py_def isB64char_def)
  have "b64encode (sha1 (sampleKey @ guid)) = py ''s3pPLMBiTxaQ9kYGzzhZRbK+xOo=''"
    by (simp add: sample_digest b64char_def py_def)
  with handshake_accept_token [OF v] v show ?thesis
    by simp
qed

end
